theory Spec2Isabelle
  imports Main
begin

text \<open>
  A shallow embedding of the tool handlers of \<^verbatim>\<open>github_full_mcp_server.py\<close>: the handle \<open>g\<close>
  and the platform objects are records whose methods are functions answering with a value
  or an exception, and every handler returns its Python value or the exception it ends
  with, together with the calls it made on the platform. Embedded are \<open>_get_repo_safe\<close> and
  the tools \<open>list_issues\<close>, \<open>create_github_issue\<close>, \<open>list_branches\<close>,
  \<open>get_file_content_from_repo\<close>, \<open>create_or_update_file\<close>, \<open>merge_pull_request\<close>,
  \<open>list_repository_contents\<close>, \<open>list_releases\<close>, \<open>list_workflows\<close>, \<open>list_labels\<close>,
  \<open>get_user_profile\<close>, \<open>list_org_members\<close> and \<open>create_gist\<close>. Default arguments are passed
  explicitly.
\<close>

section \<open>Python values, exceptions and capability calls\<close>

text \<open>
  Every tool returns a plain Python value: a dict, or a list of dicts. Dicts are association
  lists in insertion order.
\<close>

datatype pyval =
    PyNone
  | PyBool bool
  | PyInt int
  | PyStr string
  | PyList "pyval list"
  | PyDict "(string \<times> pyval) list"

text \<open>
  The exceptions the handlers can meet. \<open>GithubException s d\<close> carries \<open>str(e)\<close> and the
  rendering of \<open>e.data\<close>. \<open>AttributeError\<close> is what an attribute access on \<open>None\<close> raises;
  \<open>OtherException\<close> stands for any exception that is neither a \<open>ValueError\<close> nor a
  \<open>GithubException\<close>.
\<close>

datatype exn =
    ValueError string
  | GithubException string string
  | AttributeError string
  | OtherException string

fun str_exn :: "exn \<Rightarrow> string" where
  "str_exn (ValueError m) = m"
| "str_exn (GithubException s d) = s"
| "str_exn (AttributeError m) = m"
| "str_exn (OtherException m) = m"

fun is_ValueError :: "exn \<Rightarrow> bool" where
  "is_ValueError (ValueError m) = True"
| "is_ValueError e = False"

fun is_GithubException :: "exn \<Rightarrow> bool" where
  "is_GithubException (GithubException s d) = True"
| "is_GithubException e = False"

text \<open>\<open>except (ValueError, GithubException)\<close>\<close>

definition value_or_github :: "exn \<Rightarrow> bool" where
  "value_or_github e = (is_ValueError e \<or> is_GithubException e)"

text \<open>Truthiness of an optional string (\<open>None\<close> and \<open>""\<close> are falsy) and of an optional flag.\<close>

definition truthy_str :: "string option \<Rightarrow> bool" where
  "truthy_str s = (case s of None \<Rightarrow> False | Some v \<Rightarrow> v \<noteq> [])"

definition truthy_bool :: "bool option \<Rightarrow> bool" where
  "truthy_bool b = (case b of None \<Rightarrow> False | Some v \<Rightarrow> v)"

text \<open>\<open>f(s) if s else d\<close> on an optional string.\<close>

definition if_str :: "string option \<Rightarrow> (string \<Rightarrow> 'a) \<Rightarrow> 'a \<Rightarrow> 'a" where
  "if_str s f d = (case s of None \<Rightarrow> d | Some v \<Rightarrow> if v \<noteq> [] then f v else d)"

definition opt_str :: "string option \<Rightarrow> pyval" where
  "opt_str s = (case s of None \<Rightarrow> PyNone | Some v \<Rightarrow> PyStr v)"

text \<open>A string between single quotes, as the messages' f-strings write it.\<close>

definition quoted :: "string \<Rightarrow> string" where
  "quoted s = CHR 0x27 # s @ [CHR 0x27]"

text \<open>\<open>str(n)\<close> for an integer, as an f-string renders it.\<close>

definition digit_char :: "nat \<Rightarrow> char" where
  "digit_char d = ''0123456789'' ! d"

fun str_nat :: "nat \<Rightarrow> string" where
  "str_nat n = (if n < 10 then [digit_char n] else str_nat (n div 10) @ [digit_char (n mod 10)])"

declare str_nat.simps [simp del]

definition str_int :: "int \<Rightarrow> string" where
  "str_int i = (if i < 0 then CHR ''-'' # str_nat (nat (- i)) else str_nat (nat i))"

section \<open>The remote client capability\<close>

text \<open>Platform objects, with the fields the handlers read. Timestamps are held in their
  \<open>isoformat()\<close> rendering.\<close>

record named_user =
  user_login :: string
  user_id :: int
  user_name :: "string option"
  user_email :: "string option"
  user_company :: "string option"
  user_location :: "string option"
  user_blog :: "string option"
  user_public_repos :: int
  user_followers :: int
  user_following :: int
  user_created_at :: string
  user_html_url :: string

record issue =
  issue_title :: string
  issue_number :: int
  issue_html_url :: string
  issue_state :: string
  issue_created_at :: string
  issue_assignees :: "named_user list"

record branch =
  branch_name :: string
  branch_protected :: bool

record release =
  release_tag_name :: string
  release_title :: "string option"
  release_html_url :: string
  release_created_at :: string
  release_published_at :: "string option"
  release_prerelease :: bool
  release_draft :: bool

record workflow =
  workflow_name :: string
  workflow_id :: int
  workflow_state :: string
  workflow_path :: string
  workflow_html_url :: string

record label =
  label_name :: string
  label_color :: string
  label_description :: "string option"

text \<open>A \<open>ContentFile\<close>; \<open>content_decoded\<close> is \<open>decoded_content.decode('utf-8')\<close>, which can
  raise (\<open>UnicodeDecodeError\<close> is a \<open>ValueError\<close>).\<close>

record content_file =
  content_name :: string
  content_path :: string
  content_type :: string
  content_html_url :: string
  content_decoded :: "exn + string"
  content_encoding :: "string option"
  content_sha :: string

text \<open>\<open>get_contents\<close> answers with a list for a directory and a single object for a file.\<close>

datatype contents = Directory "content_file list" | SingleFile content_file

record merge_status =
  merge_message :: string
  merge_merged :: bool
  merge_sha :: string

record pull_request =
  pull_html_url :: string
  pull_mergeable :: "bool option"
  pull_merge :: "string option \<Rightarrow> string option \<Rightarrow> string \<Rightarrow> exn + merge_status"

text \<open>The answer of \<open>create_file\<close>/\<open>update_file\<close>: the commit's sha, the content's path and url.\<close>

record file_response =
  response_commit_sha :: string
  response_content_path :: string
  response_content_html_url :: string

record gist =
  gist_id :: string
  gist_html_url :: string
  gist_description :: "string option"
  gist_public :: bool
  gist_files :: "string list"

record repository =
  get_issues :: "string \<Rightarrow> named_user option \<Rightarrow> exn + issue list"
  create_issue :: "string \<Rightarrow> string \<Rightarrow> named_user list \<Rightarrow> string list \<Rightarrow> exn + issue"
  get_pull :: "int \<Rightarrow> exn + pull_request"
  get_branches :: "exn + branch list"
  get_contents :: "string \<Rightarrow> string option \<Rightarrow> exn + contents"
  update_file :: "string \<Rightarrow> string \<Rightarrow> string \<Rightarrow> string \<Rightarrow> string option \<Rightarrow> exn + file_response"
  create_file :: "string \<Rightarrow> string \<Rightarrow> string \<Rightarrow> string option \<Rightarrow> exn + file_response"
  get_releases :: "exn + release list"
  get_workflows :: "exn + workflow list"
  get_labels :: "exn + label list"

record organization =
  get_members :: "exn + named_user list"

text \<open>The handle \<open>g\<close>. The module holds \<open>g = None\<close> when \<open>GITHUB_TOKEN\<close> is unset or the
  start-up authentication test failed; the handlers take it as \<open>client option\<close>.\<close>

record client =
  get_repo :: "string \<Rightarrow> exn + repository"
  get_user :: "string \<Rightarrow> exn + named_user"
  get_organization :: "string \<Rightarrow> exn + organization"
  create_gist_remote :: "bool \<Rightarrow> (string \<times> string) list \<Rightarrow> string option \<Rightarrow> exn + gist"

text \<open>The calls a handler makes on the capability, in order, with their arguments.\<close>

datatype call =
    GetRepo string
  | GetUser string
  | GetOrganization string
  | GetMembers
  | GetIssues string "named_user option"
  | CreateIssue string string "named_user list" "string list"
  | GetPull int
  | Merge "string option" "string option" string
  | GetBranches
  | GetContents string "string option"
  | UpdateFile string string string string "string option"
  | CreateFile string string string "string option"
  | GetReleases
  | GetWorkflows
  | GetLabels
  | CreateGist bool "(string \<times> string) list" "string option"

text \<open>A computation either returns or raises, and leaves the list of calls it made.\<close>

type_synonym 'a run = "(exn + 'a) \<times> call list"

definition ret :: "'a \<Rightarrow> 'a run" where
  "ret x = (Inr x, [])"

definition raise_exn :: "exn \<Rightarrow> 'a run" where
  "raise_exn e = (Inl e, [])"

definition invoke :: "call \<Rightarrow> exn + 'a \<Rightarrow> 'a run" where
  "invoke c r = (r, [c])"

definition then_run :: "'a run \<Rightarrow> ('a \<Rightarrow> 'b run) \<Rightarrow> 'b run" where
  "then_run m f =
     (case fst m of
        Inl e \<Rightarrow> (Inl e, snd m)
      | Inr x \<Rightarrow> (fst (f x), snd m @ snd (f x)))"

text \<open>\<open>try: ... except <caught> as e: return handler(e)\<close>; other exceptions propagate.\<close>

definition try_except :: "'a run \<Rightarrow> (exn \<Rightarrow> bool) \<Rightarrow> (exn \<Rightarrow> 'a) \<Rightarrow> 'a run" where
  "try_except m caught handler =
     (case fst m of
        Inl e \<Rightarrow> if caught e then (Inr (handler e), snd m) else m
      | Inr x \<Rightarrow> m)"

text \<open>An attribute of \<open>g\<close>: on \<open>None\<close> the access raises \<open>AttributeError\<close>.\<close>

definition g_attr :: "client option \<Rightarrow> string \<Rightarrow> client run" where
  "g_attr g attr =
     (case g of
        None \<Rightarrow> raise_exn (AttributeError
          (quoted ''NoneType'' @ '' object has no attribute '' @ quoted attr))
      | Some c \<Rightarrow> ret c)"

section \<open>Repository access\<close>

definition get_repo_safe :: "client option \<Rightarrow> string \<Rightarrow> repository run" where
  "get_repo_safe g repo_full_name =
     (case g of
        None \<Rightarrow> raise_exn (ValueError
          ''GitHub token is not configured or invalid. Please set GITHUB_TOKEN environment variable correctly.'')
      | Some c \<Rightarrow>
          (case get_repo c repo_full_name of
             Inl (GithubException s d) \<Rightarrow>
               (Inl (ValueError (''Could not find repository '' @ quoted repo_full_name @ ''. Error: '' @ d)),
                [GetRepo repo_full_name])
           | r \<Rightarrow> (r, [GetRepo repo_full_name])))"

definition error_payload :: "string \<Rightarrow> pyval" where
  "error_payload m = PyDict [(''error'', PyStr m)]"

section \<open>Tools\<close>

text \<open>
  Each tool takes the module's handle \<open>g\<close> as its first argument. The platform's
  enumerations are finite sequences, fetched anew by each call. The loop
  \<^verbatim>\<open>for i, x in enumerate(xs): if i >= limit: break; <body>\<close>
  is \<open>enumerate_loop\<close>, with the body as a function on \<open>results\<close>.
\<close>

fun enumerate_loop ::
  "int \<Rightarrow> ('a \<Rightarrow> pyval list \<Rightarrow> pyval list) \<Rightarrow> int \<Rightarrow> 'a list \<Rightarrow> pyval list \<Rightarrow> pyval list" where
  "enumerate_loop limit body i [] results = results"
| "enumerate_loop limit body i (x # xs) results =
     (if i \<ge> limit then results else enumerate_loop limit body (i + 1) xs (body x results))"

definition shape_issue :: "issue \<Rightarrow> pyval" where
  "shape_issue issue =
     PyDict
       [(''title'', PyStr (issue_title issue)),
        (''number'', PyInt (issue_number issue)),
        (''url'', PyStr (issue_html_url issue)),
        (''state'', PyStr (issue_state issue)),
        (''created_at'', PyStr (issue_created_at issue)),
        (''assignees'', PyList
           (if issue_assignees issue \<noteq> []
            then map (\<lambda>a. PyStr (user_login a)) (issue_assignees issue) else []))]"

definition list_issues ::
  "client option \<Rightarrow> string \<Rightarrow> string \<Rightarrow> int \<Rightarrow> string option \<Rightarrow> pyval run" where
  "list_issues g repo_full_name state limit assignee_username =
     try_except
       (then_run (get_repo_safe g repo_full_name) (\<lambda>repo.
        then_run
          (if_str assignee_username
             (\<lambda>u. then_run (g_attr g ''get_user'') (\<lambda>c.
                  then_run (invoke (GetUser u) (get_user c u)) (\<lambda>assignee_user.
                    ret (Some assignee_user))))
             (ret None)) (\<lambda>assignee.
        then_run (invoke (GetIssues state assignee) (get_issues repo state assignee)) (\<lambda>issues.
          ret (PyList
            (enumerate_loop limit (\<lambda>issue results. results @ [shape_issue issue]) 0 issues []))))))
       value_or_github
       (\<lambda>e. error_payload (str_exn e))"

definition create_github_issue ::
  "client option \<Rightarrow> string \<Rightarrow> string \<Rightarrow> string \<Rightarrow> string option \<Rightarrow> string list option \<Rightarrow> pyval run" where
  "create_github_issue g repo_full_name title body assignee_username labels =
     try_except
       (then_run (get_repo_safe g repo_full_name) (\<lambda>repo.
        then_run
          (if_str assignee_username
             (\<lambda>u. then_run (g_attr g ''get_user'') (\<lambda>c.
                  then_run (invoke (GetUser u) (get_user c u)) (\<lambda>assignee_user.
                    ret [assignee_user])))
             (ret [])) (\<lambda>assignees.
        then_run
          (invoke
             (CreateIssue title body assignees
                (case labels of None \<Rightarrow> [] | Some ls \<Rightarrow> if ls \<noteq> [] then ls else []))
             (create_issue repo title body assignees
                (case labels of None \<Rightarrow> [] | Some ls \<Rightarrow> if ls \<noteq> [] then ls else []))) (\<lambda>issue.
          ret (PyDict
            [(''message'', PyStr ''Issue created successfully!''),
             (''title'', PyStr (issue_title issue)),
             (''number'', PyInt (issue_number issue)),
             (''url'', PyStr (issue_html_url issue))])))))
       value_or_github
       (\<lambda>e. error_payload (str_exn e))"

definition shape_branch :: "branch \<Rightarrow> pyval" where
  "shape_branch branch =
     PyDict [(''name'', PyStr (branch_name branch)), (''protected'', PyBool (branch_protected branch))]"

definition list_branches :: "client option \<Rightarrow> string \<Rightarrow> bool \<Rightarrow> int \<Rightarrow> pyval run" where
  "list_branches g repo_full_name protected_only limit =
     try_except
       (then_run (get_repo_safe g repo_full_name) (\<lambda>repo.
        then_run (invoke GetBranches (get_branches repo)) (\<lambda>branches.
          ret (PyList
            (enumerate_loop limit
               (\<lambda>branch results.
                  if \<not> protected_only \<or> branch_protected branch
                  then results @ [shape_branch branch] else results)
               0 branches [])))))
       value_or_github
       (\<lambda>e. error_payload (str_exn e))"

definition get_file_content_from_repo ::
  "client option \<Rightarrow> string \<Rightarrow> string \<Rightarrow> string option \<Rightarrow> pyval run" where
  "get_file_content_from_repo g repo_full_name path ref =
     try_except
       (then_run (get_repo_safe g repo_full_name) (\<lambda>repo.
        then_run (invoke (GetContents path ref) (get_contents repo path ref)) (\<lambda>contents.
          case contents of
            Directory entries \<Rightarrow>
              ret (error_payload (''Path '' @ quoted path @ '' is a directory, not a file.''))
          | SingleFile file \<Rightarrow>
              then_run (content_decoded file, []) (\<lambda>text.
                ret (PyDict
                  [(''content'', PyStr text),
                   (''encoding'', opt_str (content_encoding file)),
                   (''sha'', PyStr (content_sha file))])))))
       value_or_github
       (\<lambda>e. error_payload
          (''Could not retrieve file content. Check repo, path, or ref. Error: '' @ str_exn e))"

definition create_or_update_file ::
  "client option \<Rightarrow> string \<Rightarrow> string \<Rightarrow> string \<Rightarrow> string \<Rightarrow> string option \<Rightarrow> string option \<Rightarrow> pyval run" where
  "create_or_update_file g repo_full_name path message content branch sha =
     try_except
       (then_run (get_repo_safe g repo_full_name) (\<lambda>repo.
        then_run
          (if_str sha
             (\<lambda>s. invoke (UpdateFile path message content s branch)
                    (update_file repo path message content s branch))
             (invoke (CreateFile path message content branch)
                (create_file repo path message content branch))) (\<lambda>response.
          ret (PyDict
            [(''message'', PyStr ''File operation successful!''),
             (''commit_sha'', PyStr (response_commit_sha response)),
             (''file_path'', PyStr (response_content_path response)),
             (''file_url'', PyStr (response_content_html_url response))]))))
       value_or_github
       (\<lambda>e. error_payload
          (''Could not create/update file. Check permissions, path, or SHA. Error: '' @ str_exn e))"

definition merge_pull_request ::
  "client option \<Rightarrow> string \<Rightarrow> int \<Rightarrow> string option \<Rightarrow> string option \<Rightarrow> string \<Rightarrow> pyval run" where
  "merge_pull_request g repo_full_name pr_number commit_message sha merge_method =
     try_except
       (then_run (get_repo_safe g repo_full_name) (\<lambda>repo.
        then_run (invoke (GetPull pr_number) (get_pull repo pr_number)) (\<lambda>pr.
          if \<not> truthy_bool (pull_mergeable pr)
          then ret (error_payload (''Pull request #'' @ str_int pr_number @ '' is not mergeable.''))
          else
            then_run (invoke (Merge commit_message sha merge_method)
                        (pull_merge pr commit_message sha merge_method)) (\<lambda>merge_result.
              ret (PyDict
                [(''message'', PyStr (merge_message merge_result)),
                 (''merged'', PyBool (merge_merged merge_result)),
                 (''sha'', PyStr (merge_sha merge_result)),
                 (''url'', PyStr (pull_html_url pr))])))))
       value_or_github
       (\<lambda>e. error_payload (str_exn e))"

definition shape_content :: "content_file \<Rightarrow> pyval" where
  "shape_content content =
     PyDict
       [(''name'', PyStr (content_name content)),
        (''path'', PyStr (content_path content)),
        (''type'', PyStr (content_type content)),
        (''url'', PyStr (content_html_url content))]"

definition list_repository_contents ::
  "client option \<Rightarrow> string \<Rightarrow> string \<Rightarrow> string option \<Rightarrow> pyval run" where
  "list_repository_contents g repo_full_name path ref =
     try_except
       (then_run (get_repo_safe g repo_full_name) (\<lambda>repo.
        then_run (invoke (GetContents path ref) (get_contents repo path ref)) (\<lambda>contents.
          ret (PyList
            (case contents of
               Directory entries \<Rightarrow>
                 foldl (\<lambda>results content. results @ [shape_content content]) [] entries
             | SingleFile file \<Rightarrow> [] @ [shape_content file])))))
       value_or_github
       (\<lambda>e. error_payload
          (''Could not list repository contents. Check repo, path, or ref. Error: '' @ str_exn e))"

definition shape_release :: "release \<Rightarrow> pyval" where
  "shape_release release =
     PyDict
       [(''tag_name'', PyStr (release_tag_name release)),
        (''name'', opt_str (release_title release)),
        (''url'', PyStr (release_html_url release)),
        (''created_at'', PyStr (release_created_at release)),
        (''published_at'', opt_str (release_published_at release)),
        (''prerelease'', PyBool (release_prerelease release)),
        (''draft'', PyBool (release_draft release))]"

definition list_releases :: "client option \<Rightarrow> string \<Rightarrow> int \<Rightarrow> pyval run" where
  "list_releases g repo_full_name limit =
     try_except
       (then_run (get_repo_safe g repo_full_name) (\<lambda>repo.
        then_run (invoke GetReleases (get_releases repo)) (\<lambda>releases.
          ret (PyList
            (enumerate_loop limit (\<lambda>release results. results @ [shape_release release])
               0 releases [])))))
       value_or_github
       (\<lambda>e. error_payload (str_exn e))"

definition shape_workflow :: "workflow \<Rightarrow> pyval" where
  "shape_workflow workflow =
     PyDict
       [(''name'', PyStr (workflow_name workflow)),
        (''id'', PyInt (workflow_id workflow)),
        (''state'', PyStr (workflow_state workflow)),
        (''path'', PyStr (workflow_path workflow)),
        (''url'', PyStr (workflow_html_url workflow))]"

definition list_workflows :: "client option \<Rightarrow> string \<Rightarrow> int \<Rightarrow> pyval run" where
  "list_workflows g repo_full_name limit =
     try_except
       (then_run (get_repo_safe g repo_full_name) (\<lambda>repo.
        then_run (invoke GetWorkflows (get_workflows repo)) (\<lambda>workflows.
          ret (PyList
            (enumerate_loop limit (\<lambda>workflow results. results @ [shape_workflow workflow])
               0 workflows [])))))
       value_or_github
       (\<lambda>e. error_payload (str_exn e))"

definition shape_label :: "label \<Rightarrow> pyval" where
  "shape_label label =
     PyDict
       [(''name'', PyStr (label_name label)),
        (''color'', PyStr (label_color label)),
        (''description'', opt_str (label_description label))]"

definition list_labels :: "client option \<Rightarrow> string \<Rightarrow> int \<Rightarrow> pyval run" where
  "list_labels g repo_full_name limit =
     try_except
       (then_run (get_repo_safe g repo_full_name) (\<lambda>repo.
        then_run (invoke GetLabels (get_labels repo)) (\<lambda>labels.
          ret (PyList
            (enumerate_loop limit (\<lambda>label results. results @ [shape_label label])
               0 labels [])))))
       value_or_github
       (\<lambda>e. error_payload (str_exn e))"

definition get_user_profile :: "client option \<Rightarrow> string \<Rightarrow> pyval run" where
  "get_user_profile g username =
     try_except
       (then_run (g_attr g ''get_user'') (\<lambda>c.
        then_run (invoke (GetUser username) (get_user c username)) (\<lambda>user.
          ret (PyDict
            [(''login'', PyStr (user_login user)),
             (''id'', PyInt (user_id user)),
             (''name'', opt_str (user_name user)),
             (''email'', opt_str (user_email user)),
             (''company'', opt_str (user_company user)),
             (''location'', opt_str (user_location user)),
             (''blog'', opt_str (user_blog user)),
             (''public_repos'', PyInt (user_public_repos user)),
             (''followers'', PyInt (user_followers user)),
             (''following'', PyInt (user_following user)),
             (''created_at'', PyStr (user_created_at user)),
             (''url'', PyStr (user_html_url user))]))))
       is_GithubException
       (\<lambda>e. error_payload
          (''Could not retrieve user profile for '' @ quoted username @ ''. Error: '' @ str_exn e))"

definition shape_member :: "named_user \<Rightarrow> pyval" where
  "shape_member member =
     PyDict
       [(''login'', PyStr (user_login member)),
        (''id'', PyInt (user_id member)),
        (''url'', PyStr (user_html_url member))]"

definition list_org_members :: "client option \<Rightarrow> string \<Rightarrow> int \<Rightarrow> pyval run" where
  "list_org_members g org_name limit =
     try_except
       (then_run (g_attr g ''get_organization'') (\<lambda>c.
        then_run (invoke (GetOrganization org_name) (get_organization c org_name)) (\<lambda>org.
        then_run (invoke GetMembers (get_members org)) (\<lambda>members.
          ret (PyList
            (enumerate_loop limit (\<lambda>member results. results @ [shape_member member])
               0 members []))))))
       is_GithubException
       (\<lambda>e. error_payload
          (''Could not list organization members for '' @ quoted org_name @ ''. Error: '' @ str_exn e))"

text \<open>\<open>files\<close> maps file names to texts; wrapping each text in \<open>InputFileContent\<close> keeps the
  pairs as they are.\<close>

definition create_gist ::
  "client option \<Rightarrow> bool \<Rightarrow> (string \<times> string) list \<Rightarrow> string option \<Rightarrow> pyval run" where
  "create_gist g public files description =
     try_except
       (then_run (ret (map (\<lambda>(name, content). (name, content)) files)) (\<lambda>file_objects.
        then_run (g_attr g ''create_gist'') (\<lambda>c.
        then_run (invoke (CreateGist public file_objects description)
                    (create_gist_remote c public file_objects description)) (\<lambda>gist.
          ret (PyDict
            [(''message'', PyStr ''Gist created successfully!''),
             (''id'', PyStr (gist_id gist)),
             (''url'', PyStr (gist_html_url gist)),
             (''description'', opt_str (gist_description gist)),
             (''public'', PyBool (gist_public gist)),
             (''files'', PyList (map PyStr (gist_files gist)))])))))
       is_GithubException
       (\<lambda>e. error_payload (''An unexpected error occurred while creating gist: '' @ str_exn e))"

text \<open>The calls that change the platform's state.\<close>

fun is_mutation :: "call \<Rightarrow> bool" where
  "is_mutation (CreateIssue t b a l) = True"
| "is_mutation (Merge c s m) = True"
| "is_mutation (UpdateFile p m c s b) = True"
| "is_mutation (CreateFile p m c b) = True"
| "is_mutation (CreateGist p f d) = True"
| "is_mutation c = False"

text \<open>The field names of a record, in order.\<close>

fun dict_keys :: "pyval \<Rightarrow> string list" where
  "dict_keys (PyDict kvs) = map fst kvs"
| "dict_keys v = []"

section \<open>A sample platform\<close>

text \<open>A client that knows the user \<open>octocat\<close>, the organization \<open>acme\<close> and the repository
  \<open>acme/widgets\<close>, with five open issues, an unprotected and a protected branch, three pull
  requests, a file and a directory.\<close>

definition octocat :: named_user where
  "octocat =
     \<lparr>user_login = ''octocat'', user_id = 583231, user_name = Some ''The Octocat'',
      user_email = None, user_company = Some ''@github'', user_location = None,
      user_blog = None, user_public_repos = 8, user_followers = 100, user_following = 9,
      user_created_at = ''2011-01-25T18:44:36+00:00'', user_html_url = ''https://github.com/octocat''\<rparr>"

definition sample_issue :: "int \<Rightarrow> issue" where
  "sample_issue k =
     \<lparr>issue_title = ''Bug'', issue_number = k, issue_html_url = ''https://github.com/acme/widgets/issues'',
      issue_state = ''open'', issue_created_at = ''2024-05-01T10:00:00+00:00'',
      issue_assignees = (if k = 1 then [octocat] else [])\<rparr>"

definition sample_issues :: "issue list" where
  "sample_issues = map sample_issue [1, 2, 3, 4, 5]"

definition sample_branches :: "branch list" where
  "sample_branches =
     [\<lparr>branch_name = ''main'', branch_protected = False\<rparr>,
      \<lparr>branch_name = ''release'', branch_protected = True\<rparr>]"

definition sample_merged :: merge_status where
  "sample_merged =
     \<lparr>merge_message = ''Pull Request successfully merged'', merge_merged = True, merge_sha = ''6dcb09b''\<rparr>"

definition sample_pull :: "bool option \<Rightarrow> pull_request" where
  "sample_pull m =
     \<lparr>pull_html_url = ''https://github.com/acme/widgets/pull'', pull_mergeable = m,
      pull_merge = (\<lambda>commit_message sha merge_method. Inr sample_merged)\<rparr>"

definition readme :: content_file where
  "readme =
     \<lparr>content_name = ''README.md'', content_path = ''README.md'', content_type = ''file'',
      content_html_url = ''https://github.com/acme/widgets/blob/main/README.md'',
      content_decoded = Inr ''# widgets'', content_encoding = Some ''base64'',
      content_sha = ''3d21ec5''\<rparr>"

definition src_entries :: "content_file list" where
  "src_entries =
     [\<lparr>content_name = ''main.py'', content_path = ''src/main.py'', content_type = ''file'',
       content_html_url = ''https://github.com/acme/widgets/blob/main/src/main.py'',
       content_decoded = Inr ''print(1)'', content_encoding = Some ''base64'',
       content_sha = ''7c258a9''\<rparr>,
      \<lparr>content_name = ''lib'', content_path = ''src/lib'', content_type = ''dir'',
       content_html_url = ''https://github.com/acme/widgets/tree/main/src/lib'',
       content_decoded = Inl (OtherException ''no content''), content_encoding = None,
       content_sha = ''a84d88e''\<rparr>]"

definition not_found :: exn where
  "not_found = GithubException ''404 Not Found'' ''Not Found''"

definition sample_response :: "string \<Rightarrow> file_response" where
  "sample_response path =
     \<lparr>response_commit_sha = ''7638417'', response_content_path = path,
      response_content_html_url = ''https://github.com/acme/widgets/blob/main/'' @ path\<rparr>"

definition sample_releases :: "release list" where
  "sample_releases =
     [\<lparr>release_tag_name = ''v1.1'', release_title = Some ''1.1'',
       release_html_url = ''https://github.com/acme/widgets/releases/tag/v1.1'',
       release_created_at = ''2024-04-01T09:00:00+00:00'', release_published_at = None,
       release_prerelease = False, release_draft = True\<rparr>,
      \<lparr>release_tag_name = ''v1.0'', release_title = None,
       release_html_url = ''https://github.com/acme/widgets/releases/tag/v1.0'',
       release_created_at = ''2024-03-01T09:00:00+00:00'',
       release_published_at = Some ''2024-03-02T09:00:00+00:00'',
       release_prerelease = False, release_draft = False\<rparr>]"

definition sample_workflows :: "workflow list" where
  "sample_workflows =
     [\<lparr>workflow_name = ''build'', workflow_id = 161335, workflow_state = ''active'',
       workflow_path = ''.github/workflows/build.yml'',
       workflow_html_url = ''https://github.com/acme/widgets/blob/main/.github/workflows/build.yml''\<rparr>,
      \<lparr>workflow_name = ''lint'', workflow_id = 161336, workflow_state = ''active'',
       workflow_path = ''.github/workflows/lint.yml'',
       workflow_html_url = ''https://github.com/acme/widgets/blob/main/.github/workflows/lint.yml''\<rparr>]"

definition sample_labels :: "label list" where
  "sample_labels =
     [\<lparr>label_name = ''bug'', label_color = ''f29513'', label_description = Some ''Something is broken''\<rparr>,
      \<lparr>label_name = ''idea'', label_color = ''0e8a16'', label_description = None\<rparr>]"

definition sample_created :: "string \<Rightarrow> issue" where
  "sample_created title =
     \<lparr>issue_title = title, issue_number = 6, issue_html_url = ''https://github.com/acme/widgets/issues/6'',
      issue_state = ''open'', issue_created_at = ''2024-05-02T10:00:00+00:00'', issue_assignees = []\<rparr>"

definition widgets :: repository where
  "widgets =
     \<lparr>get_issues = (\<lambda>state assignee.
        if state = ''open'' then
          (case assignee of
             None \<Rightarrow> Inr sample_issues
           | Some u \<Rightarrow> Inr (filter (\<lambda>i. u \<in> set (issue_assignees i)) sample_issues))
        else Inr []),
      create_issue = (\<lambda>title body assignees labels. Inr (sample_created title)),
      get_pull = (\<lambda>n.
        if n = 7 then Inr (sample_pull (Some False))
        else if n = 8 then Inr (sample_pull None)
        else if n = 9 then Inr (sample_pull (Some True))
        else Inl not_found),
      get_branches = Inr sample_branches,
      get_contents = (\<lambda>path ref.
        if path = ''README.md'' then Inr (SingleFile readme)
        else if path = ''src'' then Inr (Directory src_entries)
        else Inl not_found),
      update_file = (\<lambda>path message content sha branch.
        if sha = ''3d21ec5'' then Inr (sample_response path) else Inl not_found),
      create_file = (\<lambda>path message content branch. Inr (sample_response path)),
      get_releases = Inr sample_releases,
      get_workflows = Inr sample_workflows,
      get_labels = Inr sample_labels\<rparr>"

definition acme :: organization where
  "acme = \<lparr>get_members = Inr [octocat]\<rparr>"

definition sample_gist :: "bool \<Rightarrow> (string \<times> string) list \<Rightarrow> string option \<Rightarrow> gist" where
  "sample_gist public files description =
     \<lparr>gist_id = ''aa5a315'', gist_html_url = ''https://gist.github.com/aa5a315'',
      gist_description = description, gist_public = public, gist_files = map fst files\<rparr>"

definition sample_client :: client where
  "sample_client =
     \<lparr>get_repo = (\<lambda>name. if name = ''acme/widgets'' then Inr widgets else Inl not_found),
      get_user = (\<lambda>login. if login = ''octocat'' then Inr octocat else Inl not_found),
      get_organization = (\<lambda>name. if name = ''acme'' then Inr acme else Inl not_found),
      create_gist_remote = (\<lambda>public files description. Inr (sample_gist public files description))\<rparr>"

text \<open>The same platform behind a connection that fails on user lookups.\<close>

definition offline_client :: client where
  "offline_client =
     sample_client\<lparr>get_user := (\<lambda>login. Inl (OtherException ''Connection refused''))\<rparr>"

section \<open>Running computations\<close>

lemma then_run_Inl: "then_run (Inl e, t) f = (Inl e, t)"
  by (simp add: then_run_def)

lemma then_run_Inr: "then_run (Inr x, t) f = (fst (f x), t @ snd (f x))"
  by (simp add: then_run_def)

lemma try_except_Inr: "try_except (Inr x, t) caught handler = (Inr x, t)"
  by (simp add: try_except_def)

lemma try_except_Inl:
  "try_except (Inl e, t) caught handler = (if caught e then (Inr (handler e), t) else (Inl e, t))"
  by (simp add: try_except_def)

lemmas run_simps =
  then_run_Inl then_run_Inr try_except_Inr try_except_Inl ret_def raise_exn_def invoke_def

lemma get_repo_safe_found:
  "get_repo c n = Inr repo \<Longrightarrow> get_repo_safe (Some c) n = (Inr repo, [GetRepo n])"
  by (simp add: get_repo_safe_def)

lemma get_repo_safe_unconfigured:
  "get_repo_safe None n = (Inl (ValueError
     ''GitHub token is not configured or invalid. Please set GITHUB_TOKEN environment variable correctly.''), [])"
  by (simp add: get_repo_safe_def raise_exn_def)

text \<open>The loop keeps the matching items among the first \<open>limit - i\<close> of the enumeration.\<close>

lemma enumerate_loop_filter:
  "enumerate_loop limit (\<lambda>x r. if p x then r @ [f x] else r) i xs acc
     = acc @ map f (filter p (take (nat (limit - i)) xs))"
proof (induction xs arbitrary: i acc)
  case Nil
  then show ?case by simp
next
  case (Cons x xs)
  show ?case
  proof (cases "i \<ge> limit")
    case True
    then show ?thesis by simp
  next
    case False
    then have "nat (limit - i) = Suc (nat (limit - (i + 1)))" by simp
    with False Cons show ?thesis by simp
  qed
qed

lemma enumerate_loop_append:
  "enumerate_loop limit (\<lambda>x r. r @ [f x]) i xs acc = acc @ map f (take (nat (limit - i)) xs)"
  using enumerate_loop_filter [of limit "\<lambda>_. True" f i xs acc] by simp

section \<open>Facts about the sample platform\<close>

lemma sample_repo: "get_repo sample_client ''acme/widgets'' = Inr widgets"
  by (simp add: sample_client_def)

lemma str_int_examples:
  "str_int 0 = ''0''" "str_int 1234 = ''1234''" "str_int (- 120) = ''-120''"
  by code_simp+

lemma str_int_7: "str_int 7 = ''7''"
  by code_simp

lemma str_int_8: "str_int 8 = ''8''"
  by code_simp

section \<open>merge_pull_request\<close>

lemma merge_pull_request_refused:
  assumes "get_repo c n = Inr repo" and "get_pull repo k = Inr pr"
    and "\<not> truthy_bool (pull_mergeable pr)"
  shows "merge_pull_request (Some c) n k cm sha mm =
     (Inr (error_payload (''Pull request #'' @ str_int k @ '' is not mergeable.'')),
      [GetRepo n, GetPull k])"
  using assms
  by (simp add: merge_pull_request_def get_repo_safe_found run_simps)

text \<open>When the flag is true the merge call is made, so the refusal below is the flag's doing.\<close>

lemma merge_pull_request_merges:
  assumes "get_repo c n = Inr repo" and "get_pull repo k = Inr pr"
    and "pull_mergeable pr = Some True"
  shows "snd (merge_pull_request (Some c) n k cm sha mm) = [GetRepo n, GetPull k, Merge cm sha mm]"
  using assms
  by (cases "pull_merge pr cm sha mm")
     (simp_all add: merge_pull_request_def get_repo_safe_found run_simps truthy_bool_def)

text \<open>
  C4. For a pull request whose platform-reported mergeable flag is false,
  \<open>merge_pull_request\<close> returns the error payload whose message is exactly
  \<open>Pull request #<n> is not mergeable.\<close>, with \<open><n>\<close> the given number, and makes no merge
  call: the repository and the pull request are fetched and nothing else is called.
\<close>

theorem merge_refused_when_flag_false:
  assumes "g = Some c" and "get_repo c repo_full_name = Inr repo"
    and "get_pull repo pr_number = Inr pr" and "pull_mergeable pr = Some False"
  shows "merge_pull_request g repo_full_name pr_number commit_message sha merge_method =
           (Inr (PyDict [(''error'',
              PyStr (''Pull request #'' @ str_int pr_number @ '' is not mergeable.''))]),
            [GetRepo repo_full_name, GetPull pr_number])
         \<and> filter is_mutation
             (snd (merge_pull_request g repo_full_name pr_number commit_message sha merge_method)) = []"
  using assms
    merge_pull_request_refused [of c repo_full_name repo pr_number pr commit_message sha merge_method]
  by (simp add: truthy_bool_def error_payload_def)

theorem merge_refused_when_flag_false_witness:
  "get_repo sample_client ''acme/widgets'' = Inr widgets
   \<and> get_pull widgets 7 = Inr (sample_pull (Some False))
   \<and> pull_mergeable (sample_pull (Some False)) = Some False
   \<and> merge_pull_request (Some sample_client) ''acme/widgets'' 7 None None ''merge'' =
       (Inr (PyDict [(''error'', PyStr ''Pull request #7 is not mergeable.'')]),
        [GetRepo ''acme/widgets'', GetPull 7])"
proof -
  have r: "get_repo sample_client ''acme/widgets'' = Inr widgets"
    by (rule sample_repo)
  have p: "get_pull widgets 7 = Inr (sample_pull (Some False))"
    by (simp add: widgets_def)
  have m: "pull_mergeable (sample_pull (Some False)) = Some False"
    by (simp add: sample_pull_def)
  show ?thesis
    using merge_refused_when_flag_false [OF refl r p m, of None None "''merge''"] r p m
    by (simp add: str_int_7)
qed

text \<open>
  C9. An unknown flag counts as false: for a pull request whose platform-reported mergeable
  flag is not true (false, or \<open>None\<close> while the platform has not computed it), the call returns
  the \<open>Pull request #<n> is not mergeable.\<close> error payload and makes no merge call.
\<close>

theorem merge_refused_unless_flag_true:
  assumes "g = Some c" and "get_repo c repo_full_name = Inr repo"
    and "get_pull repo pr_number = Inr pr" and "pull_mergeable pr \<noteq> Some True"
  shows "merge_pull_request g repo_full_name pr_number commit_message sha merge_method =
           (Inr (PyDict [(''error'',
              PyStr (''Pull request #'' @ str_int pr_number @ '' is not mergeable.''))]),
            [GetRepo repo_full_name, GetPull pr_number])
         \<and> filter is_mutation
             (snd (merge_pull_request g repo_full_name pr_number commit_message sha merge_method)) = []"
proof -
  from assms(4) have "\<not> truthy_bool (pull_mergeable pr)"
    by (cases "pull_mergeable pr") (simp_all add: truthy_bool_def)
  with assms show ?thesis
    using merge_pull_request_refused
      [of c repo_full_name repo pr_number pr commit_message sha merge_method]
    by (simp add: error_payload_def)
qed

theorem merge_refused_unless_flag_true_witness:
  "get_repo sample_client ''acme/widgets'' = Inr widgets
   \<and> get_pull widgets 8 = Inr (sample_pull None)
   \<and> pull_mergeable (sample_pull None) \<noteq> Some True
   \<and> merge_pull_request (Some sample_client) ''acme/widgets'' 8 None None ''squash'' =
       (Inr (PyDict [(''error'', PyStr ''Pull request #8 is not mergeable.'')]),
        [GetRepo ''acme/widgets'', GetPull 8])"
proof -
  have r: "get_repo sample_client ''acme/widgets'' = Inr widgets"
    by (rule sample_repo)
  have p: "get_pull widgets 8 = Inr (sample_pull None)"
    by (simp add: widgets_def)
  have m: "pull_mergeable (sample_pull None) \<noteq> Some True"
    by (simp add: sample_pull_def)
  show ?thesis
    using merge_refused_unless_flag_true [OF refl r p m, of None None "''squash''"] r p m
    by (simp add: str_int_8)
qed

section \<open>list_repository_contents and get_file_content_from_repo\<close>

lemma foldl_append_map: "foldl (\<lambda>results x. results @ [f x]) acc xs = acc @ map f xs"
  by (induction xs arbitrary: acc) simp_all

text \<open>
  C7. For a path that resolves to a single file, \<open>list_repository_contents\<close> returns a
  one-element list holding that file's record (name, path, type, url), not a bare record;
  for a directory it returns one record per entry of the listing, in the listing's order.
\<close>

theorem contents_always_a_list:
  assumes "g = Some c" and "get_repo c repo_full_name = Inr repo"
  shows "(get_contents repo path ref = Inr (SingleFile file) \<longrightarrow>
            list_repository_contents g repo_full_name path ref =
              (Inr (PyList [PyDict
                 [(''name'', PyStr (content_name file)), (''path'', PyStr (content_path file)),
                  (''type'', PyStr (content_type file)), (''url'', PyStr (content_html_url file))]]),
               [GetRepo repo_full_name, GetContents path ref]))
       \<and> (get_contents repo dir_path dir_ref = Inr (Directory entries) \<longrightarrow>
            list_repository_contents g repo_full_name dir_path dir_ref =
              (Inr (PyList (map shape_content entries)),
               [GetRepo repo_full_name, GetContents dir_path dir_ref]))"
  using assms
  by (simp add: list_repository_contents_def get_repo_safe_found run_simps foldl_append_map
      shape_content_def)

theorem contents_always_a_list_witness:
  "get_repo sample_client ''acme/widgets'' = Inr widgets
   \<and> get_contents widgets ''README.md'' None = Inr (SingleFile readme)
   \<and> get_contents widgets ''src'' None = Inr (Directory src_entries)
   \<and> list_repository_contents (Some sample_client) ''acme/widgets'' ''README.md'' None =
       (Inr (PyList [PyDict
          [(''name'', PyStr ''README.md''), (''path'', PyStr ''README.md''), (''type'', PyStr ''file''),
           (''url'', PyStr ''https://github.com/acme/widgets/blob/main/README.md'')]]),
        [GetRepo ''acme/widgets'', GetContents ''README.md'' None])
   \<and> fst (list_repository_contents (Some sample_client) ''acme/widgets'' ''src'' None) =
       Inr (PyList (map shape_content src_entries))
   \<and> length (map shape_content src_entries) = 2"
proof -
  have r: "get_repo sample_client ''acme/widgets'' = Inr widgets"
    by (rule sample_repo)
  have f: "get_contents widgets ''README.md'' None = Inr (SingleFile readme)"
    by (simp add: widgets_def)
  have d: "get_contents widgets ''src'' None = Inr (Directory src_entries)"
    by (simp add: widgets_def)
  show ?thesis
    using contents_always_a_list
      [OF refl r, of "''README.md''" None readme "''src''" None src_entries] r f d
    by (simp add: readme_def src_entries_def)
qed

text \<open>A file's content is shaped into a record, so the refusal below is the directory's doing.\<close>

lemma get_file_content_of_file:
  assumes "get_repo c n = Inr repo" and "get_contents repo path ref = Inr (SingleFile file)"
    and "content_decoded file = Inr text"
  shows "get_file_content_from_repo (Some c) n path ref =
           (Inr (PyDict [(''content'', PyStr text), (''encoding'', opt_str (content_encoding file)),
                         (''sha'', PyStr (content_sha file))]),
            [GetRepo n, GetContents path ref])"
  using assms
  by (simp add: get_file_content_from_repo_def get_repo_safe_found run_simps)

text \<open>
  C8. For a path that resolves to a directory, \<open>get_file_content_from_repo\<close> returns the error
  payload \<open>{error: "Path '<path>' is a directory, not a file."}\<close> and no content record: the
  listing is not shaped into a success result.
\<close>

theorem directory_is_not_a_file:
  assumes "g = Some c" and "get_repo c repo_full_name = Inr repo"
    and "get_contents repo path ref = Inr (Directory entries)"
  shows "get_file_content_from_repo g repo_full_name path ref =
           (Inr (PyDict [(''error'',
              PyStr (''Path '' @ [CHR 0x27] @ path @ [CHR 0x27] @ '' is a directory, not a file.''))]),
            [GetRepo repo_full_name, GetContents path ref])"
  using assms
  by (simp add: get_file_content_from_repo_def get_repo_safe_found run_simps error_payload_def
      quoted_def)

theorem directory_is_not_a_file_witness:
  "get_repo sample_client ''acme/widgets'' = Inr widgets
   \<and> get_contents widgets ''src'' None = Inr (Directory src_entries)
   \<and> get_file_content_from_repo (Some sample_client) ''acme/widgets'' ''src'' None =
       (Inr (PyDict [(''error'',
          PyStr (''Path '' @ [CHR 0x27] @ ''src'' @ [CHR 0x27] @ '' is a directory, not a file.''))]),
        [GetRepo ''acme/widgets'', GetContents ''src'' None])"
proof -
  have r: "get_repo sample_client ''acme/widgets'' = Inr widgets"
    by (rule sample_repo)
  have d: "get_contents widgets ''src'' None = Inr (Directory src_entries)"
    by (simp add: widgets_def)
  show ?thesis
    using directory_is_not_a_file [OF refl r d] r d
    by simp
qed

section \<open>Calls on an unconfigured handle\<close>

text \<open>The tools that go through \<open>get_repo_safe\<close> answer an unconfigured handle with an error
  payload.\<close>

lemma unconfigured_repo_tools:
  "fst (list_issues None n st limit au) = Inr (error_payload
     ''GitHub token is not configured or invalid. Please set GITHUB_TOKEN environment variable correctly.'')"
  "fst (merge_pull_request None n k cm sha mm) = Inr (error_payload
     ''GitHub token is not configured or invalid. Please set GITHUB_TOKEN environment variable correctly.'')"
  "fst (get_file_content_from_repo None n path ref) = Inr (error_payload
     (''Could not retrieve file content. Check repo, path, or ref. Error: '' @
      ''GitHub token is not configured or invalid. Please set GITHUB_TOKEN environment variable correctly.''))"
  by (simp_all add: list_issues_def merge_pull_request_def get_file_content_from_repo_def
      get_repo_safe_unconfigured run_simps value_or_github_def)

text \<open>
  C1. The claim: every tool, also on an unconfigured handle, returns its success record or
  \<open>{error: string}\<close> and never ends with an uncaught exception. The tools that use \<open>g\<close> directly
  do not: with \<open>g = None\<close>, \<open>get_user_profile\<close>, \<open>create_gist\<close> and \<open>list_org_members\<close> raise
  \<open>AttributeError\<close>, which their \<open>except GithubException\<close> does not catch, so the call ends
  with the exception.
\<close>

theorem unconfigured_handle_raises:
  "get_user_profile None username =
     (Inl (AttributeError
        (quoted ''NoneType'' @ '' object has no attribute '' @ quoted ''get_user'')), [])
   \<and> create_gist None public files description =
     (Inl (AttributeError
        (quoted ''NoneType'' @ '' object has no attribute '' @ quoted ''create_gist'')), [])
   \<and> list_org_members None org_name limit =
     (Inl (AttributeError
        (quoted ''NoneType'' @ '' object has no attribute '' @ quoted ''get_organization'')), [])"
  by (simp add: get_user_profile_def create_gist_def list_org_members_def g_attr_def run_simps)

section \<open>create_or_update_file\<close>

lemma invoke_then_ret_calls: "snd (then_run (invoke c r) (\<lambda>x. ret (f x))) = [c]"
  by (cases r) (simp_all add: run_simps)

lemma try_except_calls: "snd (try_except m caught handler) = snd m"
  by (cases "fst m") (simp_all add: try_except_def)

lemma create_or_update_file_calls:
  assumes "get_repo c n = Inr repo"
  shows "snd (create_or_update_file (Some c) n path message content branch sha) =
           [GetRepo n,
            if_str sha (\<lambda>s. UpdateFile path message content s branch)
              (CreateFile path message content branch)]"
  using assms
  by (simp add: create_or_update_file_def try_except_calls get_repo_safe_found then_run_Inr
      if_str_def invoke_then_ret_calls split: option.splits)

text \<open>
  C5, as the claim states it, fails: a \<open>sha\<close> argument that is present but empty selects the
  create-file mutation, since the code tests the truthiness of \<open>sha\<close>.
\<close>

theorem empty_sha_creates:
  "get_repo sample_client ''acme/widgets'' = Inr widgets
   \<and> snd (create_or_update_file (Some sample_client) ''acme/widgets'' ''docs/new.md'' ''add'' ''text''
        None (Some [])) =
       [GetRepo ''acme/widgets'', CreateFile ''docs/new.md'' ''add'' ''text'' None]"
  by (simp add: create_or_update_file_calls sample_repo if_str_def)

text \<open>
  C5, amended. In \<open>create_or_update_file\<close>, once the repository is resolved, the truthiness of
  \<open>sha\<close> is the sole discriminator: a non-empty \<open>sha\<close> makes the call invoke the update-file
  mutation with that \<open>sha\<close>, an absent or empty \<open>sha\<close> makes it invoke the create-file mutation;
  that mutation is the only call after the repository lookup, so the \<open>sha\<close> is not checked
  against the existing file beforehand.
\<close>

theorem sha_truthiness_selects_mutation:
  assumes "g = Some c" and "get_repo c repo_full_name = Inr repo"
  shows "snd (create_or_update_file g repo_full_name path message content branch sha) =
           [GetRepo repo_full_name,
            (case sha of
               None \<Rightarrow> CreateFile path message content branch
             | Some s \<Rightarrow>
                 if s = [] then CreateFile path message content branch
                 else UpdateFile path message content s branch)]"
  using assms
  by (simp add: create_or_update_file_calls if_str_def split: option.splits)

theorem sha_truthiness_selects_mutation_witness:
  "get_repo sample_client ''acme/widgets'' = Inr widgets
   \<and> snd (create_or_update_file (Some sample_client) ''acme/widgets'' ''README.md'' ''edit'' ''text''
        None (Some ''3d21ec5'')) =
       [GetRepo ''acme/widgets'', UpdateFile ''README.md'' ''edit'' ''text'' ''3d21ec5'' None]
   \<and> snd (create_or_update_file (Some sample_client) ''acme/widgets'' ''docs/new.md'' ''add'' ''text''
        None None) =
       [GetRepo ''acme/widgets'', CreateFile ''docs/new.md'' ''add'' ''text'' None]"
proof -
  have r: "get_repo sample_client ''acme/widgets'' = Inr widgets"
    by (rule sample_repo)
  show ?thesis
    using sha_truthiness_selects_mutation
        [OF refl r, of "''README.md''" "''edit''" "''text''" None "Some ''3d21ec5''"]
      sha_truthiness_selects_mutation
        [OF refl r, of "''docs/new.md''" "''add''" "''text''" None None] r
    by simp
qed

section \<open>create_github_issue\<close>

lemma create_github_issue_unresolved:
  assumes "get_repo c n = Inr repo" and "u \<noteq> []" and "get_user c u = Inl e"
  shows "create_github_issue (Some c) n title body (Some u) labels =
           (if value_or_github e then Inr (error_payload (str_exn e)) else Inl e,
            [GetRepo n, GetUser u])"
  using assms
  by (simp add: create_github_issue_def get_repo_safe_found run_simps if_str_def g_attr_def)

lemma create_github_issue_unassigned_calls:
  assumes "get_repo c n = Inr repo" and "\<not> truthy_str au"
  shows "snd (create_github_issue (Some c) n title body au labels) =
           [GetRepo n,
            CreateIssue title body [] (case labels of None \<Rightarrow> [] | Some ls \<Rightarrow> ls)]"
proof -
  have ls: "(case labels of None \<Rightarrow> [] | Some ls \<Rightarrow> if ls \<noteq> [] then ls else []) =
      (case labels of None \<Rightarrow> [] | Some ls \<Rightarrow> ls)"
    by (cases labels) simp_all
  from assms(2) have "if_str au
      (\<lambda>u. then_run (g_attr (Some c) ''get_user'') (\<lambda>c.
           then_run (invoke (GetUser u) (get_user c u)) (\<lambda>assignee_user. ret [assignee_user])))
      (ret []) = (Inr [], [])"
    by (cases au) (simp_all add: if_str_def truthy_str_def ret_def)
  with assms(1) show ?thesis
    by (simp add: create_github_issue_def try_except_calls get_repo_safe_found then_run_Inr
        invoke_then_ret_calls ls)
qed

text \<open>
  C10, as the claim states it, fails at two inputs. An \<open>assignee_username\<close> that is given but
  empty is not looked up at all, and the issue is created, although the platform knows no
  such user. And when the lookup of a given user fails with an exception that is neither a
  \<open>GithubException\<close> nor a \<open>ValueError\<close>, the call does not return an error payload: the
  exception leaves the handler.
\<close>

theorem empty_assignee_creates:
  "get_user sample_client [] = Inl not_found
   \<and> create_github_issue (Some sample_client) ''acme/widgets'' ''Bug'' [] (Some []) None =
       (Inr (PyDict [(''message'', PyStr ''Issue created successfully!''), (''title'', PyStr ''Bug''),
                     (''number'', PyInt 6), (''url'', PyStr ''https://github.com/acme/widgets/issues/6'')]),
        [GetRepo ''acme/widgets'', CreateIssue ''Bug'' [] [] []])
   \<and> get_user offline_client ''octocat'' = Inl (OtherException ''Connection refused'')
   \<and> create_github_issue (Some offline_client) ''acme/widgets'' ''Bug'' [] (Some ''octocat'') None =
       (Inl (OtherException ''Connection refused''), [GetRepo ''acme/widgets'', GetUser ''octocat''])"
  by (simp add: create_github_issue_def get_repo_safe_found sample_repo run_simps if_str_def
      widgets_def sample_created_def sample_client_def offline_client_def g_attr_def
      value_or_github_def)

text \<open>
  C10, amended. \<open>create_github_issue\<close> resolves a non-empty \<open>assignee_username\<close> before creating
  anything: for every call in which a non-empty \<open>assignee_username\<close> is given and that user
  cannot be resolved, whatever exception the lookup fails with, the issue-creation mutation
  is never invoked (the calls made are the repository lookup and the user lookup), so no
  issue is created; the call returns the error payload with the exception's text when the
  exception is a \<open>GithubException\<close> or a \<open>ValueError\<close>, and ends with the exception
  otherwise. An absent or empty \<open>assignee_username\<close> is not looked up: the next call after
  the repository lookup is the issue-creation mutation, with an empty list of assignees.
\<close>

theorem unresolved_assignee_creates_nothing:
  assumes "g = Some c" and "get_repo c repo_full_name = Inr repo"
  shows "(assignee_username = Some u \<longrightarrow> u \<noteq> [] \<longrightarrow> get_user c u = Inl e \<longrightarrow>
            snd (create_github_issue g repo_full_name title body assignee_username labels) =
              [GetRepo repo_full_name, GetUser u]
            \<and> filter is_mutation
                (snd (create_github_issue g repo_full_name title body assignee_username labels)) = []
            \<and> fst (create_github_issue g repo_full_name title body assignee_username labels) =
                (if value_or_github e then Inr (PyDict [(''error'', PyStr (str_exn e))]) else Inl e))
       \<and> (\<not> truthy_str assignee_username \<longrightarrow>
            snd (create_github_issue g repo_full_name title body assignee_username labels) =
              [GetRepo repo_full_name,
               CreateIssue title body [] (case labels of None \<Rightarrow> [] | Some ls \<Rightarrow> ls)])"
  using assms
  by (simp add: create_github_issue_unresolved create_github_issue_unassigned_calls
      error_payload_def)

theorem unresolved_assignee_creates_nothing_witness:
  "get_repo sample_client ''acme/widgets'' = Inr widgets
   \<and> get_user sample_client ''nobody'' = Inl not_found
   \<and> value_or_github not_found
   \<and> create_github_issue (Some sample_client) ''acme/widgets'' ''Bug'' [] (Some ''nobody'') None =
       (Inr (PyDict [(''error'', PyStr ''404 Not Found'')]),
        [GetRepo ''acme/widgets'', GetUser ''nobody''])
   \<and> \<not> truthy_str (Some [])
   \<and> snd (create_github_issue (Some sample_client) ''acme/widgets'' ''Bug'' [] (Some [])
        (Some [''bug''])) =
       [GetRepo ''acme/widgets'', CreateIssue ''Bug'' [] [] [''bug'']]"
proof -
  have r: "get_repo sample_client ''acme/widgets'' = Inr widgets"
    by (rule sample_repo)
  have u: "get_user sample_client ''nobody'' = Inl not_found"
    by (simp add: sample_client_def)
  have v: "value_or_github not_found"
    by (simp add: value_or_github_def not_found_def)
  have t: "\<not> truthy_str (Some [])"
    by (simp add: truthy_str_def)
  show ?thesis
    using unresolved_assignee_creates_nothing
        [where g = "Some sample_client" and c = sample_client and repo = widgets
           and repo_full_name = "''acme/widgets''" and assignee_username = "Some ''nobody''"
           and u = "''nobody''" and e = not_found and title = "''Bug''" and body = "[]"
           and labels = None]
      unresolved_assignee_creates_nothing
        [where g = "Some sample_client" and c = sample_client and repo = widgets
           and repo_full_name = "''acme/widgets''" and assignee_username = "Some []"
           and title = "''Bug''" and body = "[]" and labels = "Some [''bug'']"]
      r u v t
    by (simp add: not_found_def prod_eq_iff)
qed

section \<open>list_issues\<close>

lemma list_issues_unfiltered:
  assumes "get_repo c n = Inr repo" and "\<not> truthy_str au"
    and "get_issues repo st None = Inr xs"
  shows "list_issues (Some c) n st limit au =
           (Inr (PyList (map shape_issue (take (nat limit) xs))), [GetRepo n, GetIssues st None])"
  using assms
  by (simp add: list_issues_def get_repo_safe_found run_simps if_str_def truthy_str_def
      enumerate_loop_append split: option.splits)

lemma list_issues_assigned:
  assumes "get_repo c n = Inr repo" and "u \<noteq> []" and "get_user c u = Inr usr"
    and "get_issues repo st (Some usr) = Inr xs"
  shows "list_issues (Some c) n st limit (Some u) =
           (Inr (PyList (map shape_issue (take (nat limit) xs))),
            [GetRepo n, GetUser u, GetIssues st (Some usr)])"
  using assms
  by (simp add: list_issues_def get_repo_safe_found run_simps if_str_def g_attr_def
      enumerate_loop_append)

text \<open>The calls made do not depend on what the enumeration answers.\<close>

lemma list_issues_unfiltered_calls:
  assumes "get_repo c n = Inr repo" and "\<not> truthy_str au"
  shows "snd (list_issues (Some c) n st limit au) = [GetRepo n, GetIssues st None]"
proof -
  from assms(2) have "if_str au
      (\<lambda>u. then_run (g_attr (Some c) ''get_user'') (\<lambda>c.
           then_run (invoke (GetUser u) (get_user c u)) (\<lambda>assignee_user. ret (Some assignee_user))))
      (ret None) = (Inr None, [])"
    by (cases au) (simp_all add: if_str_def truthy_str_def ret_def)
  with assms(1) show ?thesis
    by (simp add: list_issues_def try_except_calls get_repo_safe_found then_run_Inr
        invoke_then_ret_calls)
qed

lemma list_issues_assigned_calls:
  assumes "get_repo c n = Inr repo" and "u \<noteq> []" and "get_user c u = Inr usr"
  shows "snd (list_issues (Some c) n st limit (Some u)) =
           [GetRepo n, GetUser u, GetIssues st (Some usr)]"
proof -
  from assms(3) have "then_run (g_attr (Some c) ''get_user'') (\<lambda>c.
      then_run (invoke (GetUser u) (get_user c u)) (\<lambda>assignee_user. ret (Some assignee_user))) =
      (Inr (Some usr), [GetUser u])"
    by (simp add: g_attr_def run_simps)
  with assms(1,2) show ?thesis
    by (simp add: list_issues_def try_except_calls get_repo_safe_found then_run_Inr if_str_def
        invoke_then_ret_calls)
qed

lemma shape_issue_keys:
  "dict_keys (shape_issue i) =
     [''title'', ''number'', ''url'', ''state'', ''created_at'', ''assignees'']"
  by (simp add: shape_issue_def)

lemma sample_open: "get_issues widgets ''open'' None = Inr sample_issues"
  by (simp add: widgets_def)

lemma sample_octocat: "get_user sample_client ''octocat'' = Inr octocat"
  by (simp add: sample_client_def)

lemma sample_assigned: "get_issues widgets ''open'' (Some octocat) = Inr [sample_issue 1]"
  by (simp add: widgets_def sample_issues_def sample_issue_def)

text \<open>
  C6, as the claim states it, fails at three inputs. The repository's enumeration under the
  state filter \<open>open\<close> yields five issues; with \<open>limit = 2\<close> and the assignee \<open>octocat\<close>, to whom
  one of them is assigned, the result holds one record, not two, since the assignee filter
  narrows the enumeration the limit applies to. An \<open>assignee_username\<close> that is given but
  empty is not resolved and no assignee filter reaches the enumeration. And with a negative
  \<open>limit\<close>, which the five issues exceed, the result holds no record, not \<open>limit\<close> records.
\<close>

theorem list_issues_given_but_unresolved:
  "get_issues widgets ''open'' None = Inr sample_issues
   \<and> int (length sample_issues) \<ge> 2
   \<and> fst (list_issues (Some sample_client) ''acme/widgets'' ''open'' 2 (Some ''octocat'')) =
       Inr (PyList [shape_issue (sample_issue 1)])
   \<and> snd (list_issues (Some sample_client) ''acme/widgets'' ''open'' 5 (Some [])) =
       [GetRepo ''acme/widgets'', GetIssues ''open'' None]
   \<and> int (length sample_issues) \<ge> - 1
   \<and> fst (list_issues (Some sample_client) ''acme/widgets'' ''open'' (- 1) None) = Inr (PyList [])"
proof -
  have "''octocat'' \<noteq> []"
    by simp
  then have "fst (list_issues (Some sample_client) ''acme/widgets'' ''open'' 2 (Some ''octocat'')) =
       Inr (PyList [shape_issue (sample_issue 1)])"
    using list_issues_assigned [OF sample_repo _ sample_octocat sample_assigned, of 2]
    by simp
  moreover have "int (length sample_issues) \<ge> 2"
    by (simp add: sample_issues_def)
  ultimately show ?thesis
    by (simp add: list_issues_unfiltered [OF sample_repo _ sample_open] sample_open
        truthy_str_def)
qed

text \<open>
  C6, amended. When \<open>assignee_username\<close> is absent or empty, \<open>list_issues\<close> resolves no user
  and requests the enumeration under the state filter alone; when a non-empty
  \<open>assignee_username\<close> is given and the user resolves, the user is resolved first and passed
  to the server-side enumeration as its assignee filter, nothing being filtered locally.
  For every \<open>limit\<close> that is not negative, whenever the enumeration so requested (under the
  state filter and, when given, the assignee filter) yields at least \<open>limit\<close> issues,
  \<open>list_issues\<close> returns exactly \<open>limit\<close> records, the first \<open>limit\<close> issues of that
  enumeration in its order, each with exactly the fields title, number, url, state,
  created_at, assignees.
\<close>

theorem list_issues_first_limit:
  assumes "g = Some c" and "get_repo c repo_full_name = Inr repo"
  shows "(\<not> truthy_str assignee_username \<longrightarrow>
            snd (list_issues g repo_full_name state limit assignee_username) =
              [GetRepo repo_full_name, GetIssues state None]
            \<and> (get_issues repo state None = Inr issues \<longrightarrow>
               0 \<le> limit \<longrightarrow> limit \<le> int (length issues) \<longrightarrow>
                 fst (list_issues g repo_full_name state limit assignee_username) =
                   Inr (PyList (map shape_issue (take (nat limit) issues)))))
       \<and> (assignee_username = Some u \<longrightarrow> u \<noteq> [] \<longrightarrow> get_user c u = Inr assignee_user \<longrightarrow>
            snd (list_issues g repo_full_name state limit assignee_username) =
              [GetRepo repo_full_name, GetUser u, GetIssues state (Some assignee_user)]
            \<and> (get_issues repo state (Some assignee_user) = Inr issues \<longrightarrow>
               0 \<le> limit \<longrightarrow> limit \<le> int (length issues) \<longrightarrow>
                 fst (list_issues g repo_full_name state limit assignee_username) =
                   Inr (PyList (map shape_issue (take (nat limit) issues)))))
       \<and> (0 \<le> limit \<longrightarrow> limit \<le> int (length issues) \<longrightarrow>
            int (length (map shape_issue (take (nat limit) issues))) = limit)
       \<and> list_all
            (\<lambda>r. dict_keys r = [''title'', ''number'', ''url'', ''state'', ''created_at'', ''assignees''])
            (map shape_issue (take (nat limit) issues))"
proof -
  have "list_all
      (\<lambda>r. dict_keys r = [''title'', ''number'', ''url'', ''state'', ''created_at'', ''assignees''])
      (map shape_issue (take (nat limit) issues))"
    by (simp add: list_all_iff shape_issue_keys)
  then show ?thesis
    using assms
    by (simp add: list_issues_unfiltered list_issues_assigned list_issues_unfiltered_calls
        list_issues_assigned_calls)
qed

theorem list_issues_first_limit_witness:
  "get_repo sample_client ''acme/widgets'' = Inr widgets
   \<and> (0::int) \<le> 2 \<and> (2::int) \<le> int (length sample_issues)
   \<and> \<not> truthy_str None
   \<and> get_issues widgets ''open'' None = Inr sample_issues
   \<and> list_issues (Some sample_client) ''acme/widgets'' ''open'' 2 None =
       (Inr (PyList [shape_issue (sample_issue 1), shape_issue (sample_issue 2)]),
        [GetRepo ''acme/widgets'', GetIssues ''open'' None])
   \<and> (0::int) \<le> 1 \<and> (1::int) \<le> int (length [sample_issue 1])
   \<and> get_user sample_client ''octocat'' = Inr octocat
   \<and> get_issues widgets ''open'' (Some octocat) = Inr [sample_issue 1]
   \<and> list_issues (Some sample_client) ''acme/widgets'' ''open'' 1 (Some ''octocat'') =
       (Inr (PyList [shape_issue (sample_issue 1)]),
        [GetRepo ''acme/widgets'', GetUser ''octocat'', GetIssues ''open'' (Some octocat)])"
proof -
  have r: "get_repo sample_client ''acme/widgets'' = Inr widgets"
    by (rule sample_repo)
  have l2: "(2::int) \<le> int (length sample_issues)"
    by (simp add: sample_issues_def)
  have t: "\<not> truthy_str None"
    by (simp add: truthy_str_def)
  have t2: "take (nat 2) sample_issues = [sample_issue 1, sample_issue 2]"
    by (simp add: sample_issues_def numeral_2_eq_2)
  have a: "list_issues (Some sample_client) ''acme/widgets'' ''open'' 2 None =
       (Inr (PyList [shape_issue (sample_issue 1), shape_issue (sample_issue 2)]),
        [GetRepo ''acme/widgets'', GetIssues ''open'' None])"
    using list_issues_first_limit
        [where g = "Some sample_client" and c = sample_client and repo = widgets
           and repo_full_name = "''acme/widgets''" and limit = 2 and issues = sample_issues
           and assignee_username = None and state = "''open''"]
      r l2 t t2 sample_open
    by (simp add: prod_eq_iff)
  have b: "list_issues (Some sample_client) ''acme/widgets'' ''open'' 1 (Some ''octocat'') =
       (Inr (PyList [shape_issue (sample_issue 1)]),
        [GetRepo ''acme/widgets'', GetUser ''octocat'', GetIssues ''open'' (Some octocat)])"
    using list_issues_first_limit
        [where g = "Some sample_client" and c = sample_client and repo = widgets
           and repo_full_name = "''acme/widgets''" and limit = 1 and issues = "[sample_issue 1]"
           and assignee_username = "Some ''octocat''" and u = "''octocat''"
           and assignee_user = octocat and state = "''open''"]
      r sample_octocat sample_assigned
    by (simp add: prod_eq_iff)
  show ?thesis
    using a b r l2 t sample_open sample_octocat sample_assigned
    by simp
qed

section \<open>The limit of the list tools\<close>

lemma try_except_list:
  assumes "fst (try_except m caught (\<lambda>e. error_payload (h e))) = Inr (PyList rs)"
  shows "fst m = Inr (PyList rs)"
  using assms
  by (cases "fst m") (auto simp: try_except_def error_payload_def split: if_splits)

lemma then_run_returns:
  assumes "fst (then_run m f) = Inr y"
  obtains x where "fst m = Inr x" and "fst (f x) = Inr y"
  using assms by (cases "fst m") (simp_all add: then_run_def)

lemma take_capped: "int (length (map f (take (nat limit) xs))) \<le> max limit 0"
  by simp

lemma take_filter_capped: "int (length (map f (filter p (take (nat limit) xs)))) \<le> max limit 0"
proof -
  have "length (filter p (take (nat limit) xs)) \<le> length (take (nat limit) xs)"
    by (rule length_filter_le)
  also have "\<dots> \<le> nat limit"
    by simp
  finally show ?thesis
    by simp
qed

lemma list_issues_capped:
  assumes "fst (list_issues g n st limit au) = Inr (PyList rs)"
  shows "int (length rs) \<le> max limit 0"
proof -
  from assms obtain xs where
    "rs = enumerate_loop limit (\<lambda>issue results. results @ [shape_issue issue]) 0 xs []"
    unfolding list_issues_def
    by (auto dest!: try_except_list elim!: then_run_returns simp: ret_def)
  then show ?thesis
    using take_capped [of shape_issue limit xs] by (simp add: enumerate_loop_append)
qed

lemma list_branches_capped:
  assumes "fst (list_branches g n po limit) = Inr (PyList rs)"
  shows "int (length rs) \<le> max limit 0"
proof -
  from assms obtain xs where
    "rs = enumerate_loop limit
            (\<lambda>branch results.
               if \<not> po \<or> branch_protected branch then results @ [shape_branch branch] else results)
            0 xs []"
    unfolding list_branches_def
    by (auto dest!: try_except_list elim!: then_run_returns simp: ret_def)
  then show ?thesis
    using take_filter_capped [of shape_branch "\<lambda>b. \<not> po \<or> branch_protected b" limit xs]
    by (simp add: enumerate_loop_filter)
qed

lemma list_releases_capped:
  assumes "fst (list_releases g n limit) = Inr (PyList rs)"
  shows "int (length rs) \<le> max limit 0"
proof -
  from assms obtain xs where
    "rs = enumerate_loop limit (\<lambda>release results. results @ [shape_release release]) 0 xs []"
    unfolding list_releases_def
    by (auto dest!: try_except_list elim!: then_run_returns simp: ret_def)
  then show ?thesis
    using take_capped [of shape_release limit xs] by (simp add: enumerate_loop_append)
qed

lemma list_workflows_capped:
  assumes "fst (list_workflows g n limit) = Inr (PyList rs)"
  shows "int (length rs) \<le> max limit 0"
proof -
  from assms obtain xs where
    "rs = enumerate_loop limit (\<lambda>workflow results. results @ [shape_workflow workflow]) 0 xs []"
    unfolding list_workflows_def
    by (auto dest!: try_except_list elim!: then_run_returns simp: ret_def)
  then show ?thesis
    using take_capped [of shape_workflow limit xs] by (simp add: enumerate_loop_append)
qed

lemma list_labels_capped:
  assumes "fst (list_labels g n limit) = Inr (PyList rs)"
  shows "int (length rs) \<le> max limit 0"
proof -
  from assms obtain xs where
    "rs = enumerate_loop limit (\<lambda>label results. results @ [shape_label label]) 0 xs []"
    unfolding list_labels_def
    by (auto dest!: try_except_list elim!: then_run_returns simp: ret_def)
  then show ?thesis
    using take_capped [of shape_label limit xs] by (simp add: enumerate_loop_append)
qed

lemma list_org_members_capped:
  assumes "fst (list_org_members g n limit) = Inr (PyList rs)"
  shows "int (length rs) \<le> max limit 0"
proof -
  from assms obtain xs where
    "rs = enumerate_loop limit (\<lambda>member results. results @ [shape_member member]) 0 xs []"
    unfolding list_org_members_def
    by (auto dest!: try_except_list elim!: then_run_returns simp: ret_def)
  then show ?thesis
    using take_capped [of shape_member limit xs] by (simp add: enumerate_loop_append)
qed

text \<open>What each tool returns once its enumeration has answered.\<close>

lemma list_branches_run:
  assumes "get_repo c n = Inr repo" and "get_branches repo = Inr xs"
  shows "list_branches (Some c) n po limit =
           (Inr (PyList (map shape_branch
              (filter (\<lambda>b. \<not> po \<or> branch_protected b) (take (nat limit) xs)))),
            [GetRepo n, GetBranches])"
  using assms
  by (simp add: list_branches_def get_repo_safe_found run_simps enumerate_loop_filter)

lemma list_releases_run:
  assumes "get_repo c n = Inr repo" and "get_releases repo = Inr xs"
  shows "list_releases (Some c) n limit =
           (Inr (PyList (map shape_release (take (nat limit) xs))), [GetRepo n, GetReleases])"
  using assms
  by (simp add: list_releases_def get_repo_safe_found run_simps enumerate_loop_append)

lemma list_workflows_run:
  assumes "get_repo c n = Inr repo" and "get_workflows repo = Inr xs"
  shows "list_workflows (Some c) n limit =
           (Inr (PyList (map shape_workflow (take (nat limit) xs))), [GetRepo n, GetWorkflows])"
  using assms
  by (simp add: list_workflows_def get_repo_safe_found run_simps enumerate_loop_append)

lemma list_labels_run:
  assumes "get_repo c n = Inr repo" and "get_labels repo = Inr xs"
  shows "list_labels (Some c) n limit =
           (Inr (PyList (map shape_label (take (nat limit) xs))), [GetRepo n, GetLabels])"
  using assms
  by (simp add: list_labels_def get_repo_safe_found run_simps enumerate_loop_append)

lemma list_org_members_run:
  assumes "get_organization c n = Inr org" and "get_members org = Inr xs"
  shows "list_org_members (Some c) n limit =
           (Inr (PyList (map shape_member (take (nat limit) xs))), [GetOrganization n, GetMembers])"
  using assms
  by (simp add: list_org_members_def g_attr_def run_simps enumerate_loop_append)

lemma list_repository_contents_directory:
  assumes "get_repo c n = Inr repo" and "get_contents repo path ref = Inr (Directory entries)"
  shows "list_repository_contents (Some c) n path ref =
           (Inr (PyList (map shape_content entries)), [GetRepo n, GetContents path ref])"
  using assms
  by (simp add: list_repository_contents_def get_repo_safe_found run_simps foldl_append_map)

lemma sample_branches_run: "get_branches widgets = Inr sample_branches"
  by (simp add: widgets_def)

text \<open>
  C2, as the claim states it, fails: \<open>limit\<close> is an integer, and with \<open>limit = -1\<close> the loop
  stops at once, so the successful result holds 0 records, which exceeds the limit.
\<close>

theorem negative_limit_exceeded:
  "fst (list_branches (Some sample_client) ''acme/widgets'' False (- 1)) = Inr (PyList [])
   \<and> \<not> int (length ([] :: pyval list)) \<le> - 1"
  by (simp add: list_branches_run [OF sample_repo sample_branches_run])

text \<open>
  C2, amended. For every list tool that takes a limit (\<open>list_issues\<close>, \<open>list_branches\<close>,
  \<open>list_releases\<close>, \<open>list_workflows\<close>, \<open>list_labels\<close>, \<open>list_org_members\<close>) and every supplied
  limit, the number of records in a successful result never exceeds \<open>max(limit, 0)\<close>: it
  never exceeds a limit that is not negative, and it is 0 for a negative one.
  \<open>list_repository_contents\<close> takes no limit, and for a directory returns one record per
  entry, however many there are.
\<close>

theorem list_tools_capped:
  "(\<forall>rs. fst (list_issues g repo_full_name state limit assignee_username) = Inr (PyList rs) \<longrightarrow>
          int (length rs) \<le> max limit 0)
   \<and> (\<forall>rs. fst (list_branches g repo_full_name protected_only limit) = Inr (PyList rs) \<longrightarrow>
          int (length rs) \<le> max limit 0)
   \<and> (\<forall>rs. fst (list_releases g repo_full_name limit) = Inr (PyList rs) \<longrightarrow>
          int (length rs) \<le> max limit 0)
   \<and> (\<forall>rs. fst (list_workflows g repo_full_name limit) = Inr (PyList rs) \<longrightarrow>
          int (length rs) \<le> max limit 0)
   \<and> (\<forall>rs. fst (list_labels g repo_full_name limit) = Inr (PyList rs) \<longrightarrow>
          int (length rs) \<le> max limit 0)
   \<and> (\<forall>rs. fst (list_org_members g org_name limit) = Inr (PyList rs) \<longrightarrow>
          int (length rs) \<le> max limit 0)
   \<and> (\<forall>c repo entries. g = Some c \<longrightarrow> get_repo c repo_full_name = Inr repo \<longrightarrow>
          get_contents repo path ref = Inr (Directory entries) \<longrightarrow>
          (\<exists>rs. fst (list_repository_contents g repo_full_name path ref) = Inr (PyList rs)
                \<and> length rs = length entries))"
proof (intro conjI allI impI)
  fix rs
  assume "fst (list_issues g repo_full_name state limit assignee_username) = Inr (PyList rs)"
  then show "int (length rs) \<le> max limit 0"
    by (rule list_issues_capped)
next
  fix rs
  assume "fst (list_branches g repo_full_name protected_only limit) = Inr (PyList rs)"
  then show "int (length rs) \<le> max limit 0"
    by (rule list_branches_capped)
next
  fix rs
  assume "fst (list_releases g repo_full_name limit) = Inr (PyList rs)"
  then show "int (length rs) \<le> max limit 0"
    by (rule list_releases_capped)
next
  fix rs
  assume "fst (list_workflows g repo_full_name limit) = Inr (PyList rs)"
  then show "int (length rs) \<le> max limit 0"
    by (rule list_workflows_capped)
next
  fix rs
  assume "fst (list_labels g repo_full_name limit) = Inr (PyList rs)"
  then show "int (length rs) \<le> max limit 0"
    by (rule list_labels_capped)
next
  fix rs
  assume "fst (list_org_members g org_name limit) = Inr (PyList rs)"
  then show "int (length rs) \<le> max limit 0"
    by (rule list_org_members_capped)
next
  fix c repo entries
  assume "g = Some c" and "get_repo c repo_full_name = Inr repo"
    and "get_contents repo path ref = Inr (Directory entries)"
  then show "\<exists>rs. fst (list_repository_contents g repo_full_name path ref) = Inr (PyList rs)
      \<and> length rs = length entries"
    by (simp add: list_repository_contents_directory)
qed

lemma sample_runs:
  "fst (list_issues (Some sample_client) ''acme/widgets'' ''open'' 1 None) =
     Inr (PyList [shape_issue (sample_issue 1)])"
  "fst (list_branches (Some sample_client) ''acme/widgets'' False 1) =
     Inr (PyList [shape_branch (sample_branches ! 0)])"
  "fst (list_releases (Some sample_client) ''acme/widgets'' 1) =
     Inr (PyList [shape_release (sample_releases ! 0)])"
  "fst (list_workflows (Some sample_client) ''acme/widgets'' 1) =
     Inr (PyList [shape_workflow (sample_workflows ! 0)])"
  "fst (list_labels (Some sample_client) ''acme/widgets'' 1) =
     Inr (PyList [shape_label (sample_labels ! 0)])"
  "fst (list_org_members (Some sample_client) ''acme'' 1) = Inr (PyList [shape_member octocat])"
proof -
  have o: "get_organization sample_client ''acme'' = Inr acme"
    by (simp add: sample_client_def)
  show "fst (list_issues (Some sample_client) ''acme/widgets'' ''open'' 1 None) =
     Inr (PyList [shape_issue (sample_issue 1)])"
    by (simp add: list_issues_unfiltered [OF sample_repo _ sample_open] truthy_str_def
        sample_issues_def)
  show "fst (list_branches (Some sample_client) ''acme/widgets'' False 1) =
     Inr (PyList [shape_branch (sample_branches ! 0)])"
    by (simp add: list_branches_run [OF sample_repo sample_branches_run] sample_branches_def)
  show "fst (list_releases (Some sample_client) ''acme/widgets'' 1) =
     Inr (PyList [shape_release (sample_releases ! 0)])"
    by (simp add: list_releases_run [OF sample_repo, of sample_releases] widgets_def
        sample_releases_def)
  show "fst (list_workflows (Some sample_client) ''acme/widgets'' 1) =
     Inr (PyList [shape_workflow (sample_workflows ! 0)])"
    by (simp add: list_workflows_run [OF sample_repo, of sample_workflows] widgets_def
        sample_workflows_def)
  show "fst (list_labels (Some sample_client) ''acme/widgets'' 1) =
     Inr (PyList [shape_label (sample_labels ! 0)])"
    by (simp add: list_labels_run [OF sample_repo, of sample_labels] widgets_def
        sample_labels_def)
  show "fst (list_org_members (Some sample_client) ''acme'' 1) = Inr (PyList [shape_member octocat])"
    by (simp add: list_org_members_run [OF o, of "[octocat]"] acme_def)
qed

theorem list_tools_capped_witness:
  "fst (list_issues (Some sample_client) ''acme/widgets'' ''open'' 1 None) =
     Inr (PyList [shape_issue (sample_issue 1)])
   \<and> fst (list_branches (Some sample_client) ''acme/widgets'' False 1) =
     Inr (PyList [shape_branch (sample_branches ! 0)])
   \<and> fst (list_releases (Some sample_client) ''acme/widgets'' 1) =
     Inr (PyList [shape_release (sample_releases ! 0)])
   \<and> fst (list_workflows (Some sample_client) ''acme/widgets'' 1) =
     Inr (PyList [shape_workflow (sample_workflows ! 0)])
   \<and> fst (list_labels (Some sample_client) ''acme/widgets'' 1) =
     Inr (PyList [shape_label (sample_labels ! 0)])
   \<and> fst (list_org_members (Some sample_client) ''acme'' 1) = Inr (PyList [shape_member octocat])
   \<and> get_repo sample_client ''acme/widgets'' = Inr widgets
   \<and> get_contents widgets ''src'' None = Inr (Directory src_entries)
   \<and> int (length [shape_issue (sample_issue 1)]) \<le> max 1 0
   \<and> (\<exists>rs. fst (list_repository_contents (Some sample_client) ''acme/widgets'' ''src'' None) =
              Inr (PyList rs) \<and> length rs = length src_entries)"
proof -
  have d: "get_contents widgets ''src'' None = Inr (Directory src_entries)"
    by (simp add: widgets_def)
  show ?thesis
    using list_tools_capped
        [where g = "Some sample_client" and repo_full_name = "''acme/widgets''"
           and state = "''open''" and limit = 1 and assignee_username = None
           and protected_only = False and org_name = "''acme''" and path = "''src''"
           and ref = None]
      sample_runs sample_repo d
    by simp
qed

section \<open>list_branches with protected_only\<close>

text \<open>
  C3. The claim: when fewer resources match the tool's filter than \<open>limit\<close>, all of them are
  returned; for \<open>list_branches\<close> with \<open>protected_only\<close>, every protected branch is returned
  when there are at most \<open>limit\<close> of them. The code counts the branches it has looked at, not
  the ones it keeps: on the branches \<open>main\<close> (unprotected) and \<open>release\<close> (protected) with
  \<open>limit = 1\<close>, one protected branch exists, within the limit, and none is returned.
\<close>

theorem protected_branch_missed:
  "get_branches widgets = Inr sample_branches
   \<and> filter branch_protected sample_branches = [\<lparr>branch_name = ''release'', branch_protected = True\<rparr>]
   \<and> list_branches (Some sample_client) ''acme/widgets'' True 1 =
       (Inr (PyList []), [GetRepo ''acme/widgets'', GetBranches])"
  by (simp add: list_branches_run [OF sample_repo sample_branches_run] sample_branches_run
      sample_branches_def)

theorem protected_branch_missed_witness:
  "int (length (filter branch_protected sample_branches)) \<le> 1
   \<and> fst (list_branches (Some sample_client) ''acme/widgets'' True 1) = Inr (PyList [])
   \<and> snd (list_branches (Some sample_client) ''acme/widgets'' True 1) =
       [GetRepo ''acme/widgets'', GetBranches]"
  using protected_branch_missed by simp

end
